theory Spec2Isabelle
  imports Main
begin

section \<open>JavaScript values used by the front end\<close>

text \<open>
  Strings are lists of 8-bit code units (the Latin-1 range of a JavaScript string).
  \<open>trim\<close> is \<open>String.prototype.trim\<close>: it strips white space and line terminators from
  both ends; in this range these are TAB, LF, VT, FF, CR, SPACE and NBSP.
  \<open>toLowerCase\<close> is \<open>String.prototype.toLowerCase\<close> on the same range: A-Z and the
  accented capitals U+00C0..U+00DE (without the multiplication sign U+00D7) move up by 32.
\<close>

definition is_ws :: "char \<Rightarrow> bool" where
  "is_ws c = (let n = (of_char c :: nat) in (9 \<le> n \<and> n \<le> 13) \<or> n = 32 \<or> n = 160)"

definition trim :: "string \<Rightarrow> string" where
  "trim s = rev (dropWhile is_ws (rev (dropWhile is_ws s)))"

definition lower_char :: "char \<Rightarrow> char" where
  "lower_char c = (let n = (of_char c :: nat) in
     if (65 \<le> n \<and> n \<le> 90) \<or> (192 \<le> n \<and> n \<le> 222 \<and> n \<noteq> 215)
     then char_of (n + 32) else c)"

definition toLowerCase :: "string \<Rightarrow> string" where
  "toLowerCase s = map lower_char s"

text \<open>A number in a template literal: its decimal digits.\<close>

fun show_nat :: "nat \<Rightarrow> string" where
  "show_nat n =
     (if n < 10 then [char_of (48 + n)]
      else show_nat (n div 10) @ [char_of (48 + n mod 10)])"

declare show_nat.simps [simp del]

text \<open>
  A thrown value, with its \<open>message\<close> property when it has one. \<open>new Error(m)\<close> has the
  message \<open>m\<close>; \<open>e?.message ?? d\<close> reads the message and falls back to \<open>d\<close>.
\<close>

datatype thrown = Thrown "string option"

definition new_Error :: "string \<Rightarrow> thrown" where
  "new_Error m = Thrown (Some m)"

fun message_or :: "thrown \<Rightarrow> string \<Rightarrow> string" where
  "message_or (Thrown None) d = d"
| "message_or (Thrown (Some m)) d = m"

section \<open>Domain types\<close>

text \<open>
  \<open>Status\<close>, \<open>Finding\<close> and \<open>Scan\<close> as declared (their \<open>id\<close> fields are
  \<open>id_finding\<close> and \<open>id_scan\<close> here). The score (a JavaScript number) and the
  evidence (\<open>Record<string, any>\<close>) are only stored and displayed, so their types
  are parameters \<open>'n\<close> and \<open>'e\<close>.
\<close>

datatype Status = PASS | WARN | FAIL | INFO

datatype Level = low | medium | high

record 'e Finding =
  id_finding :: string
  key :: string
  title :: string
  status :: Status
  risk :: Level
  confidence :: Level
  evidence :: 'e
  recommendation :: string

record ('n, 'e) Scan =
  id_scan :: string
  url :: string
  score :: 'n
  findings :: "'e Finding list"

datatype Role = system | user | assistant

record Message =
  role :: Role
  content :: string

section \<open>The HTTP helper\<close>

text \<open>
  \<open>fetch\<close> is the platform's. A call issues one \<open>Request\<close> and its promise settles:
  rejected with a thrown value (no response at all), or resolved with a \<open>Response\<close>
  whose \<open>ok\<close> and \<open>status\<close> are read by the helper and whose \<open>json\<close> is what
  \<open>res.json()\<close> settles to (the decoded body, or the value it throws on a body that
  does not decode).

  An asynchronous function is a value of \<open>io\<close>: it is done with a result, or it awaits a
  fetch and continues with what the fetch settles to. The result of an \<open>async\<close>
  function that may throw is a sum, \<open>Inl\<close> the thrown value.
\<close>

datatype http_method = GET | POST

record 'b Request =
  resource :: string
  http_method :: http_method
  headers :: "(string \<times> string) list"
  body :: "'b option"
  cache :: string

record 'r Response =
  ok :: bool
  status :: nat
  json :: "thrown + 'r"

datatype 'r settled = Rejected thrown | Resolved "'r Response"

datatype ('b, 'r, 'a) io =
  Done 'a
| Await "'b Request" "'r settled \<Rightarrow> ('b, 'r, 'a) io"

text \<open>What follows an asynchronous call: \<open>f\<close> is applied to its result.\<close>

primrec and_then :: "('a \<Rightarrow> 'c) \<Rightarrow> ('b, 'r, 'a) io \<Rightarrow> ('b, 'r, 'c) io" where
  "and_then f (Done a) = Done (f a)"
| "and_then f (Await q k) = Await q (\<lambda>s. and_then f (k s))"

text \<open>
  Running an asynchronous function against the outcomes of its fetches, in order: the
  requests it issued, and its result once it is done (\<open>None\<close> while a fetch is pending).
\<close>

primrec run :: "('b, 'r, 'a) io \<Rightarrow> 'r settled list \<Rightarrow> 'b Request list \<times> 'a option" where
  "run (Done a) ss = ([], Some a)"
| "run (Await q k) ss =
     (case ss of
        [] \<Rightarrow> ([q], None)
      | s # ss' \<Rightarrow> (case run (k s) ss' of (qs, out) \<Rightarrow> (q # qs, out)))"

text \<open>
  \<open>API_BASE\<close> is \<open>process.env.NEXT_PUBLIC_API_BASE_URL || "http://localhost:8000"\<close>: the
  variable when it is set and not empty.
\<close>

definition API_BASE :: "string option \<Rightarrow> string" where
  "API_BASE v =
     (case v of
        None \<Rightarrow> ''http://localhost:8000''
      | Some s \<Rightarrow> if s = [] then ''http://localhost:8000'' else s)"

text \<open>
  The part of \<open>apiGet\<close> and \<open>apiPost\<close> after \<open>await fetch(...)\<close>; \<open>verb\<close> is the
  word the helper writes in its error message.
\<close>

definition after_fetch :: "string \<Rightarrow> string \<Rightarrow> 'r settled \<Rightarrow> thrown + 'r" where
  "after_fetch verb path s =
     (case s of
        Rejected e \<Rightarrow> Inl e
      | Resolved res \<Rightarrow>
          if \<not> ok res
          then Inl (new_Error (verb @ '' '' @ path @ '' failed: '' @ show_nat (Response.status res)))
          else json res)"

definition apiGet :: "string option \<Rightarrow> string \<Rightarrow> ('b, 'r, thrown + 'r) io" where
  "apiGet v path =
     Await \<lparr>resource = API_BASE v @ path, http_method = GET, headers = [],
            body = None, cache = ''no-store''\<rparr>
       (\<lambda>s. Done (after_fetch ''GET'' path s))"

definition apiPost :: "string option \<Rightarrow> string \<Rightarrow> 'b \<Rightarrow> ('b, 'r, thrown + 'r) io" where
  "apiPost v path b =
     Await \<lparr>resource = API_BASE v @ path, http_method = POST,
            headers = [(''content-type'', ''application/json'')],
            body = Some b, cache = ''no-store''\<rparr>
       (\<lambda>s. Done (after_fetch ''POST'' path s))"

section \<open>Presentational components\<close>

text \<open>
  \<open>StatusBadge\<close>: the \<open>classes\<close> table, and the span with its class name and the status
  as its text.
\<close>

definition classes :: "Status \<Rightarrow> string" where
  "classes s =
     (case s of
        PASS \<Rightarrow> ''bg-green-100 text-green-800''
      | WARN \<Rightarrow> ''bg-yellow-100 text-yellow-800''
      | FAIL \<Rightarrow> ''bg-red-100 text-red-800''
      | INFO \<Rightarrow> ''bg-blue-100 text-blue-800'')"

record Badge =
  className :: string
  label :: Status

definition StatusBadge :: "Status \<Rightarrow> Badge" where
  "StatusBadge s = \<lparr>className = ''px-2 py-1 text-xs rounded '' @ classes s, label = s\<rparr>"

text \<open>
  \<open>FindingCard\<close>: the fields of the finding as the card shows them. \<open>stringify\<close> is the
  platform's \<open>JSON.stringify(_, null, 2)\<close>.
\<close>

record Card =
  card_title :: string
  card_badge :: Badge
  card_risk :: Level
  card_confidence :: Level
  card_evidence :: string
  card_recommendation :: string

definition FindingCard :: "('e \<Rightarrow> string) \<Rightarrow> 'e Finding \<Rightarrow> Card" where
  "FindingCard stringify f =
     \<lparr>card_title = title f, card_badge = StatusBadge (Finding.status f),
      card_risk = risk f, card_confidence = confidence f,
      card_evidence = stringify (evidence f),
      card_recommendation = recommendation f\<rparr>"

section \<open>The chat panel\<close>

text \<open>
  \<open>ChatPanel\<close> keeps its own copy of the transcript and the text of its input
  (\<open>text_input\<close>, the component's \<open>text\<close>). \<open>handleSend\<close> returns the new state and
  the message it hands to the \<open>onSend\<close> callback, \<open>None\<close> when it does not call it.
\<close>

record ChatPanel =
  messages :: "Message list"
  text_input :: string

definition handleSend :: "ChatPanel \<Rightarrow> ChatPanel \<times> string option" where
  "handleSend p =
     (if trim (text_input p) = [] then (p, None)
      else
        let msg = trim (text_input p) in
        (p\<lparr>text_input := [],
           ChatPanel.messages := ChatPanel.messages p @ [\<lparr>role = user, content = msg\<rparr>]\<rparr>,
         Some msg))"

section \<open>The page controller\<close>

text \<open>
  The two variants of the page share these definitions word for word. What the page
  takes from its platform: \<open>URL_host u\<close> is \<open>new URL(u).host\<close>, \<open>None\<close> when the
  constructor throws, and \<open>NEXT_PUBLIC_API_BASE_URL\<close> is the environment variable.
\<close>

record Env =
  URL_host :: "string \<Rightarrow> string option"
  NEXT_PUBLIC_API_BASE_URL :: "string option"

definition DEMO_HOSTS :: "string set" where
  "DEMO_HOSTS = {''example.com'', ''www.example.com''}"

definition hostFromUrl :: "Env \<Rightarrow> string \<Rightarrow> string" where
  "hostFromUrl env u = (case URL_host env u of Some h \<Rightarrow> toLowerCase h | None \<Rightarrow> [])"

text \<open>The bodies of the three requests and of the two assistant responses.\<close>

datatype ('n, 'e) Payload =
  ScanBody string
| SessionBody "('n, 'e) Scan" string
| MessageBody string string string

record SessionBoot =
  session_id :: string
  messages :: "Message list"
  first :: string

record MessageResp =
  reply :: string
  messages :: "Message list"

record ('n, 'e) Home =
  url :: string
  scan :: "('n, 'e) Scan option"
  loading :: bool
  err :: "string option"
  attest :: bool
  sessionId :: "string option"
  messages :: "Message list option"
  draft :: string
  sending :: bool

definition Home_init :: "('n, 'e) Home" where
  "Home_init =
     \<lparr>url = ''https://example.com'', scan = None, loading = False, err = None,
      attest = False, sessionId = None, messages = None, draft = [], sending = False\<rparr>"

definition canScan :: "Env \<Rightarrow> ('n, 'e) Home \<Rightarrow> bool" where
  "canScan env st = (hostFromUrl env (url st) \<in> DEMO_HOSTS \<or> attest st)"

text \<open>
  A handler runs up to its \<open>await\<close> at once: the first component is the state after
  that part. The second is what is left of it: the request it awaits, and on its
  outcome the state updates it applies, to the state of that later moment.
\<close>

type_synonym ('n, 'e, 'r) handler =
  "('n, 'e) Home \<times> (('n, 'e) Payload, 'r, ('n, 'e) Home \<Rightarrow> ('n, 'e) Home) io"

definition onScan :: "Env \<Rightarrow> ('n, 'e) Home \<Rightarrow> ('n, 'e, ('n, 'e) Scan) handler" where
  "onScan env st =
     (if \<not> canScan env st
      then (st\<lparr>err := Some ''Please attest you own or are authorized to test this domain.''\<rparr>,
            Done (\<lambda>s. s))
      else
        (st\<lparr>loading := True, err := None, scan := None, sessionId := None,
            messages := None, draft := []\<rparr>,
         and_then
           (\<lambda>r. case r of
                   Inr result \<Rightarrow> (\<lambda>s. s\<lparr>scan := Some result, loading := False\<rparr>)
                 | Inl e \<Rightarrow> (\<lambda>s. s\<lparr>err := Some (message_or e ''Scan failed''), loading := False\<rparr>))
           (apiPost (NEXT_PUBLIC_API_BASE_URL env) ''/scan'' (ScanBody (url st)))))"

definition startAssistant :: "Env \<Rightarrow> ('n, 'e) Home \<Rightarrow> ('n, 'e, SessionBoot) handler" where
  "startAssistant env st =
     (case scan st of
        None \<Rightarrow> (st, Done (\<lambda>s. s))
      | Some sc \<Rightarrow>
          (st\<lparr>err := None\<rparr>,
           and_then
             (\<lambda>r. case r of
                     Inr boot \<Rightarrow>
                       (\<lambda>s. s\<lparr>sessionId := Some (session_id boot),
                               messages := Some (SessionBoot.messages boot)\<rparr>)
                   | Inl e \<Rightarrow> (\<lambda>s. s\<lparr>err := Some (message_or e ''Assistant failed to start'')\<rparr>))
             (apiPost (NEXT_PUBLIC_API_BASE_URL env) ''/llm/session''
                (SessionBody sc ''gpt-4o-mini''))))"

text \<open>
  \<open>!sessionId\<close> holds of \<open>null\<close> and of the empty string, \<open>!draft.trim()\<close> of a draft
  that trims to the empty string. The optimistic append reads the transcript of the
  moment of the call.
\<close>

definition sendToAssistantInline :: "Env \<Rightarrow> ('n, 'e) Home \<Rightarrow> ('n, 'e, MessageResp) handler" where
  "sendToAssistantInline env st =
     (case sessionId st of
        None \<Rightarrow> (st, Done (\<lambda>s. s))
      | Some sid \<Rightarrow>
          if sid = [] \<or> trim (draft st) = [] then (st, Done (\<lambda>s. s))
          else
            let msg = trim (draft st) in
            (st\<lparr>draft := [],
                messages :=
                  Some (case messages st of
                          Some m \<Rightarrow> m @ [\<lparr>role = user, content = msg\<rparr>]
                        | None \<Rightarrow> [\<lparr>role = user, content = msg\<rparr>]),
                sending := True\<rparr>,
             and_then
               (\<lambda>r. case r of
                       Inr resp \<Rightarrow>
                         (\<lambda>s. s\<lparr>messages := Some (MessageResp.messages resp), sending := False\<rparr>)
                     | Inl e \<Rightarrow>
                         (\<lambda>s. s\<lparr>err := Some (message_or e ''Assistant error''), sending := False\<rparr>))
               (apiPost (NEXT_PUBLIC_API_BASE_URL env) ''/llm/message''
                  (MessageBody sid msg ''gpt-4o-mini''))))"

text \<open>
  A handler run to its end with no other event between its request and the outcome:
  the requests issued and the final state.
\<close>

definition complete :: "('n, 'e, 'r) handler \<Rightarrow> 'r settled list \<Rightarrow>
    ('n, 'e) Payload Request list \<times> ('n, 'e) Home" where
  "complete h ss =
     (case run (snd h) ss of
        (qs, Some k) \<Rightarrow> (qs, k (fst h))
      | (qs, None) \<Rightarrow> (qs, fst h))"

text \<open>
  A pending handler resumed when its fetch settles: the updates it then makes, applied to
  the state of that moment, which other handlers may have changed since the request.
\<close>

definition resume :: "('n, 'e, 'r) handler \<Rightarrow> 'r settled \<Rightarrow> ('n, 'e) Home \<Rightarrow> ('n, 'e) Home" where
  "resume h s st =
     (case run (snd h) [s] of
        (qs, Some k) \<Rightarrow> k st
      | (qs, None) \<Rightarrow> st)"

text \<open>
  What the page shows of its state: the error line, and under a scan the score, the
  URL, the chat thread (once a session has started) and one card per finding.
\<close>

record 'n ScanSection =
  score_shown :: 'n
  url_shown :: string
  thread_shown :: "Message list option"
  cards :: "Card list"

record 'n View =
  scan_disabled :: bool
  attestation_shown :: bool
  err_shown :: "string option"
  scan_section :: "'n ScanSection option"

definition render :: "Env \<Rightarrow> ('e \<Rightarrow> string) \<Rightarrow> ('n, 'e) Home \<Rightarrow> 'n View" where
  "render env stringify st =
     \<lparr>scan_disabled = (loading st \<or> \<not> canScan env st),
      attestation_shown = (hostFromUrl env (url st) \<notin> DEMO_HOSTS),
      err_shown = (case err st of None \<Rightarrow> None | Some m \<Rightarrow> if m = [] then None else Some m),
      scan_section =
        (case scan st of
           None \<Rightarrow> None
         | Some sc \<Rightarrow>
             Some \<lparr>score_shown = score sc, url_shown = Scan.url sc,
                   thread_shown =
                     (case sessionId st of
                        None \<Rightarrow> None
                      | Some sid \<Rightarrow> if sid = [] then None else messages st),
                   cards = map (FindingCard stringify) (findings sc)\<rparr>)\<rparr>"

section \<open>Sample values\<close>

text \<open>
  Values for the worked examples below. \<open>sample_URL_host\<close> lists what
  \<open>new URL(u).host\<close> is for a few inputs: the parser lower-cases the host of an
  \<open>https\<close> URL, keeps the host of a URL with a scheme of its own as written, and throws
  on any text that is not in the table.
\<close>

definition sample_URL_host :: "string \<Rightarrow> string option" where
  "sample_URL_host =
     map_of [(''https://example.com'', ''example.com''),
             (''https://mysite.io'', ''mysite.io''),
             (''HTTPS://EXAMPLE.COM'', ''example.com''),
             (''foo://EXAMPLE.COM'', ''EXAMPLE.COM''),
             (''foo://example.com'', ''example.com'')]"

definition sample_env :: Env where
  "sample_env = \<lparr>URL_host = sample_URL_host, NEXT_PUBLIC_API_BASE_URL = None\<rparr>"

definition sample_scan :: "(int, unit) Scan" where
  "sample_scan =
     \<lparr>id_scan = ''scan-1'', Scan.url = ''https://example.com'', score = 72,
      findings = []\<rparr>"

definition sample_reply :: MessageResp where
  "sample_reply =
     \<lparr>reply = ''Add the header'',
      MessageResp.messages =
        [\<lparr>role = system, content = ''context''\<rparr>,
         \<lparr>role = user, content = ''fix hsts''\<rparr>,
         \<lparr>role = assistant, content = ''Add the header''\<rparr>]\<rparr>"

definition sample_chat :: "(int, unit) Home" where
  "sample_chat =
     Home_init\<lparr>scan := Some sample_scan, sessionId := Some ''abc'',
               messages := Some [\<lparr>role = system, content = ''context''\<rparr>],
               draft := '' fix hsts ''\<rparr>"

definition sample_boot :: SessionBoot where
  "sample_boot =
     \<lparr>session_id = ''abc-2'',
      SessionBoot.messages = [\<lparr>role = system, content = ''context''\<rparr>],
      first = ''How can I help?''\<rparr>"

text \<open>
  Two orders of events on the page, starting from \<open>sample_chat\<close> (a scan is shown and
  a session is open). In the first, Send is pressed, Scan is pressed while the message
  request is pending, the chat answer arrives and then the scan answer. In the second,
  Start Assistant takes the place of Send. The Scan button is disabled only while a
  scan is loading or the gate is closed, so both orders can be produced on the page.
\<close>

definition sample_late_reply :: "(int, unit) Home" where
  "sample_late_reply =
     resume (onScan sample_env (fst (sendToAssistantInline sample_env sample_chat)))
       (Resolved \<lparr>ok = True, status = 200, json = Inr sample_scan\<rparr>)
       (resume (sendToAssistantInline sample_env sample_chat)
          (Resolved \<lparr>ok = True, status = 200, json = Inr sample_reply\<rparr>)
          (fst (onScan sample_env (fst (sendToAssistantInline sample_env sample_chat)))))"

definition sample_late_boot :: "(int, unit) Home" where
  "sample_late_boot =
     resume (onScan sample_env (fst (startAssistant sample_env sample_chat)))
       (Resolved \<lparr>ok = True, status = 200, json = Inr sample_scan\<rparr>)
       (resume (startAssistant sample_env sample_chat)
          (Resolved \<lparr>ok = True, status = 200, json = Inr sample_boot\<rparr>)
          (fst (onScan sample_env (fst (startAssistant sample_env sample_chat)))))"

section \<open>Facts about the helpers\<close>

lemma trim_Nil_iff: "trim s = [] \<longleftrightarrow> (\<forall>c\<in>set s. is_ws c)"
proof
  assume "trim s = []"
  then have rest: "\<forall>x\<in>set (dropWhile is_ws s). is_ws x"
    by (simp add: trim_def dropWhile_eq_Nil_conv)
  have "dropWhile is_ws s = []"
  proof (rule ccontr)
    assume nonempty: "dropWhile is_ws s \<noteq> []"
    then have "\<not> is_ws (hd (dropWhile is_ws s))"
      by (rule hd_dropWhile)
    moreover have "hd (dropWhile is_ws s) \<in> set (dropWhile is_ws s)"
      using nonempty by simp
    ultimately show False
      using rest by blast
  qed
  then show "\<forall>c\<in>set s. is_ws c"
    by (simp add: dropWhile_eq_Nil_conv)
next
  assume "\<forall>c\<in>set s. is_ws c"
  then show "trim s = []"
    by (auto simp: trim_def dest: set_dropWhileD)
qed

lemma DEMO_HOSTS_lower: "h \<in> DEMO_HOSTS \<Longrightarrow> toLowerCase h = h"
  unfolding DEMO_HOSTS_def by (elim insertE emptyE; hypsubst; code_simp)

lemma empty_not_demo: "[] \<notin> DEMO_HOSTS"
  by (simp add: DEMO_HOSTS_def)

lemma run_apiGet:
  "run (apiGet v path :: ('b, 'r, thrown + 'r) io) ss =
     ([\<lparr>resource = API_BASE v @ path, http_method = GET, headers = [],
        body = None, cache = ''no-store''\<rparr>],
      case ss of [] \<Rightarrow> None | s # ss' \<Rightarrow> Some (after_fetch ''GET'' path s))"
  by (simp add: apiGet_def split: list.split)

lemma run_apiPost:
  "run (apiPost v path b :: ('b, 'r, thrown + 'r) io) ss =
     ([\<lparr>resource = API_BASE v @ path, http_method = POST,
        headers = [(''content-type'', ''application/json'')],
        body = Some b, cache = ''no-store''\<rparr>],
      case ss of [] \<Rightarrow> None | s # ss' \<Rightarrow> Some (after_fetch ''POST'' path s))"
  by (simp add: apiPost_def split: list.split)

lemma run_and_then:
  "run (and_then f m) ss = (case run m ss of (qs, out) \<Rightarrow> (qs, map_option f out))"
  by (induction m arbitrary: ss) (auto split: list.split prod.split)

lemma after_fetch_ok:
  "ok res \<Longrightarrow> after_fetch verb path (Resolved res) = json res"
  by (simp add: after_fetch_def)

text \<open>The three ways a call of the helper fails.\<close>

lemma after_fetch_Inl_iff:
  "after_fetch verb path s = Inl e \<longleftrightarrow>
     s = Rejected e \<or>
     (\<exists>res. s = Resolved res \<and>
        (if ok res then json res = Inl e
         else e = new_Error (verb @ '' '' @ path @ '' failed: '' @ show_nat (Response.status res))))"
  by (cases s) (auto simp: after_fetch_def)

lemma trim_sample: "trim '' fix hsts '' = ''fix hsts''"
  by code_simp

lemma show_nat_500: "show_nat 500 = ''500''"
  by code_simp

lemma is_ws_space: "is_ws CHR '' ''"
  by code_simp

lemma host_sample_example: "hostFromUrl sample_env ''https://example.com'' = ''example.com''"
  by code_simp

lemma host_sample_mysite: "hostFromUrl sample_env ''https://mysite.io'' = ''mysite.io''"
  by code_simp

lemma lower_sample: "toLowerCase ''EXAMPLE.COM'' = ''example.com''"
  by code_simp

lemma mysite_not_demo: "''mysite.io'' \<notin> DEMO_HOSTS"
  by (simp add: DEMO_HOSTS_def)

lemma example_demo: "''example.com'' \<in> DEMO_HOSTS"
  by (simp add: DEMO_HOSTS_def)

section \<open>The chat transcript\<close>

text \<open>
  C1. A chat send that passes its guard (a session, a draft that is not blank) and whose
  request is answered with a successful response carrying \<open>resp\<close>: whatever the state
  \<open>st'\<close> is when the response arrives (the optimistic entry, further entries, anything
  else), the state update then made sets the transcript to exactly \<open>resp\<close>'s
  \<open>messages\<close> and touches nothing else but the sending flag. Run without interruption,
  the send ends with the server's transcript.
\<close>

theorem send_response_replaces_transcript:
  assumes "sessionId st = Some sid" and "sid \<noteq> []" and "trim (draft st) \<noteq> []"
    and "ok res" and "json res = Inr resp"
  shows
    "(case run (snd (sendToAssistantInline env st)) [Resolved res] of
        (qs, Some k) \<Rightarrow>
          messages (k st') = Some (MessageResp.messages resp) \<and>
          k st' = st'\<lparr>messages := Some (MessageResp.messages resp), sending := False\<rparr>
      | (qs, None) \<Rightarrow> False) \<and>
     messages (snd (complete (sendToAssistantInline env st) [Resolved res])) =
       Some (MessageResp.messages resp)"
  using assms
  by (simp add: sendToAssistantInline_def complete_def Let_def run_and_then run_apiPost
      after_fetch_ok)

theorem send_response_replaces_transcript_witness:
  "sessionId sample_chat = Some ''abc'' \<and> ''abc'' \<noteq> [] \<and> trim (draft sample_chat) \<noteq> [] \<and>
   messages (snd (complete (sendToAssistantInline sample_env sample_chat)
      [Resolved \<lparr>ok = True, status = 200, json = Inr sample_reply\<rparr>])) =
     Some (MessageResp.messages sample_reply)"
proof -
  have sid: "sessionId sample_chat = Some ''abc''"
    by (simp add: sample_chat_def)
  have nonblank: "trim (draft sample_chat) \<noteq> []"
    by (simp add: sample_chat_def trim_sample)
  show ?thesis
    using send_response_replaces_transcript [where st = sample_chat and sid = "''abc''"
        and res = "\<lparr>ok = True, status = 200, json = Inr sample_reply\<rparr>"
        and resp = sample_reply and env = sample_env and st' = sample_chat]
      sid nonblank
    by simp
qed

text \<open>
  C4. A chat send that passes its guard and whose request fails with \<open>e\<close> (the fetch is
  rejected, the status is not a success, or the body does not decode): the state after
  the synchronous part has the provisional \<open>user\<close> entry appended and the sending flag
  set; the update made on failure sets only the error string (the message of \<open>e\<close>, or
  \<open>Assistant error\<close> when it has none) and resets the sending flag. Run without
  interruption, the send ends with the provisional entry still last in the transcript.
\<close>

theorem send_failure_keeps_optimistic_entry:
  assumes "sessionId st = Some sid" and "sid \<noteq> []" and "trim (draft st) \<noteq> []"
    and "after_fetch ''POST'' ''/llm/message'' s = Inl e"
  shows
    "fst (sendToAssistantInline env st) =
       st\<lparr>draft := [],
          messages := Some ((case messages st of Some m \<Rightarrow> m | None \<Rightarrow> []) @
                            [\<lparr>role = user, content = trim (draft st)\<rparr>]),
          sending := True\<rparr> \<and>
     (case run (snd (sendToAssistantInline env st)) [s] of
        (qs, Some k) \<Rightarrow>
          k st' = st'\<lparr>err := Some (message_or e ''Assistant error''), sending := False\<rparr>
      | (qs, None) \<Rightarrow> False) \<and>
     snd (complete (sendToAssistantInline env st) [s]) =
       st\<lparr>draft := [],
          messages := Some ((case messages st of Some m \<Rightarrow> m | None \<Rightarrow> []) @
                            [\<lparr>role = user, content = trim (draft st)\<rparr>]),
          err := Some (message_or e ''Assistant error''),
          sending := False\<rparr>"
  using assms
  by (simp add: sendToAssistantInline_def complete_def Let_def run_and_then run_apiPost
      split: option.split)

theorem send_failure_keeps_optimistic_entry_witness:
  "sessionId sample_chat = Some ''abc'' \<and> trim (draft sample_chat) \<noteq> [] \<and>
   after_fetch ''POST'' ''/llm/message''
     (Resolved \<lparr>ok = False, status = 500, json = Inr sample_reply\<rparr>) =
     Inl (new_Error ''POST /llm/message failed: 500'') \<and>
   snd (complete (sendToAssistantInline sample_env sample_chat)
      [Resolved \<lparr>ok = False, status = 500, json = Inr sample_reply\<rparr>]) =
     sample_chat\<lparr>draft := [],
       messages := Some [\<lparr>role = system, content = ''context''\<rparr>,
                         \<lparr>role = user, content = ''fix hsts''\<rparr>],
       err := Some ''POST /llm/message failed: 500'', sending := False\<rparr>"
proof -
  have sid: "sessionId sample_chat = Some ''abc''"
    by (simp add: sample_chat_def)
  have nonblank: "trim (draft sample_chat) \<noteq> []"
    by (simp add: sample_chat_def trim_sample)
  have failed: "after_fetch ''POST'' ''/llm/message''
      (Resolved \<lparr>ok = False, status = 500, json = Inr sample_reply\<rparr>) =
      Inl (new_Error ''POST /llm/message failed: 500'')"
    by (simp add: after_fetch_def show_nat_500)
  have "snd (complete (sendToAssistantInline sample_env sample_chat)
      [Resolved \<lparr>ok = False, status = 500, json = Inr sample_reply\<rparr>]) =
     sample_chat\<lparr>draft := [],
       messages := Some [\<lparr>role = system, content = ''context''\<rparr>,
                         \<lparr>role = user, content = ''fix hsts''\<rparr>],
       err := Some ''POST /llm/message failed: 500'', sending := False\<rparr>"
    using send_failure_keeps_optimistic_entry [OF sid _ nonblank failed,
        where env = sample_env and st' = sample_chat]
    by (simp add: sample_chat_def trim_sample new_Error_def)
  with sid nonblank failed show ?thesis
    by simp
qed

section \<open>The scan gate\<close>

text \<open>
  C2. The host of the URL is what \<open>hostFromUrl\<close> extracts from it. When that host is
  in the allow-list \<open>DEMO_HOSTS\<close> (\<open>example.com\<close>, \<open>www.example.com\<close>), \<open>canScan\<close>
  holds whatever the attestation flag is; when it is not, \<open>canScan\<close> is the
  attestation flag. A host that the platform's parser already gives as a member of the
  allow-list is extracted unchanged.
\<close>

theorem canScan_gate:
  "(hostFromUrl env (url st) \<in> DEMO_HOSTS \<longrightarrow> canScan env st) \<and>
   (hostFromUrl env (url st) \<notin> DEMO_HOSTS \<longrightarrow> canScan env st = attest st) \<and>
   (URL_host env (url st) = Some h \<and> h \<in> DEMO_HOSTS \<longrightarrow> hostFromUrl env (url st) = h)"
  by (simp add: canScan_def hostFromUrl_def DEMO_HOSTS_lower)

theorem canScan_gate_witness:
  "URL_host sample_env (url (Home_init :: (int, unit) Home)) = Some ''example.com'' \<and>
   hostFromUrl sample_env (url (Home_init :: (int, unit) Home)) \<in> DEMO_HOSTS \<and>
   \<not> attest (Home_init :: (int, unit) Home) \<and>
   canScan sample_env (Home_init :: (int, unit) Home) \<and>
   hostFromUrl sample_env (url ((Home_init :: (int, unit) Home)\<lparr>url := ''https://mysite.io''\<rparr>))
     \<notin> DEMO_HOSTS \<and>
   \<not> canScan sample_env ((Home_init :: (int, unit) Home)\<lparr>url := ''https://mysite.io''\<rparr>) \<and>
   canScan sample_env
     ((Home_init :: (int, unit) Home)\<lparr>url := ''https://mysite.io'', attest := True\<rparr>)"
proof -
  have parsed:
    "URL_host sample_env (url (Home_init :: (int, unit) Home)) = Some ''example.com''"
    by (simp add: Home_init_def sample_env_def sample_URL_host_def)
  show ?thesis
    using canScan_gate [of sample_env "Home_init :: (int, unit) Home" "''example.com''"]
      canScan_gate [of sample_env
        "(Home_init :: (int, unit) Home)\<lparr>url := ''https://mysite.io''\<rparr>" "''example.com''"]
      canScan_gate [of sample_env
        "(Home_init :: (int, unit) Home)\<lparr>url := ''https://mysite.io'', attest := True\<rparr>"
        "''example.com''"]
      parsed
    by (simp add: Home_init_def host_sample_example host_sample_mysite mysite_not_demo
        example_demo)
qed

text \<open>
  C7. For a text that the URL parser rejects, \<open>hostFromUrl\<close> returns the empty string
  (the exception is caught); the empty string is not in the allow-list, so \<open>canScan\<close> is
  the attestation flag, and a scan attempted without it issues no request.
\<close>

theorem invalid_url_empty_host:
  assumes "URL_host env (url st) = None"
  shows "hostFromUrl env (url st) = [] \<and> [] \<notin> DEMO_HOSTS \<and> canScan env st = attest st \<and>
         (if attest st then canScan env st else fst (complete (onScan env st) ss) = [])"
  using assms
  by (simp add: hostFromUrl_def canScan_def empty_not_demo onScan_def complete_def)

theorem invalid_url_empty_host_witness:
  "URL_host sample_env (url ((Home_init :: (int, unit) Home)\<lparr>url := ''not a url''\<rparr>)) = None \<and>
   hostFromUrl sample_env ''not a url'' = [] \<and>
   \<not> canScan sample_env ((Home_init :: (int, unit) Home)\<lparr>url := ''not a url''\<rparr>) \<and>
   fst (complete (onScan sample_env ((Home_init :: (int, unit) Home)\<lparr>url := ''not a url''\<rparr>))
          [Resolved \<lparr>ok = True, status = 200, json = Inr sample_scan\<rparr>]) = []"
  using invalid_url_empty_host [of sample_env
      "(Home_init :: (int, unit) Home)\<lparr>url := ''not a url''\<rparr>"
      "[Resolved \<lparr>ok = True, status = 200, json = Inr sample_scan\<rparr>]"]
  by (simp add: Home_init_def sample_env_def sample_URL_host_def)

text \<open>
  C10. The extracted host is the parsed host in lower case, so two URLs whose parsed
  hosts differ only in the case of their letters have the same extracted host and the
  same \<open>canScan\<close>; in particular a parsed host whose lower-case form is in the allow-list
  passes the gate without attestation.
\<close>

theorem host_case_insensitive:
  assumes "URL_host env u = Some h" and "URL_host env u' = Some h'"
    and "toLowerCase h = toLowerCase h'"
  shows "hostFromUrl env u = toLowerCase h \<and> hostFromUrl env u' = hostFromUrl env u \<and>
         canScan env (st\<lparr>url := u\<rparr>) = canScan env (st\<lparr>url := u'\<rparr>) \<and>
         (if toLowerCase h \<in> DEMO_HOSTS then canScan env (st\<lparr>url := u\<rparr>)
          else canScan env (st\<lparr>url := u\<rparr>) = attest st)"
  using assms by (simp add: hostFromUrl_def canScan_def)

theorem host_case_insensitive_witness:
  "URL_host sample_env ''foo://EXAMPLE.COM'' = Some ''EXAMPLE.COM'' \<and>
   URL_host sample_env ''foo://example.com'' = Some ''example.com'' \<and>
   toLowerCase ''EXAMPLE.COM'' = toLowerCase ''example.com'' \<and>
   hostFromUrl sample_env ''foo://EXAMPLE.COM'' = ''example.com'' \<and>
   canScan sample_env ((Home_init :: (int, unit) Home)\<lparr>url := ''foo://EXAMPLE.COM''\<rparr>) \<and>
   canScan sample_env ((Home_init :: (int, unit) Home)\<lparr>url := ''foo://example.com''\<rparr>)"
proof -
  have up: "URL_host sample_env ''foo://EXAMPLE.COM'' = Some ''EXAMPLE.COM''"
    by (simp add: sample_env_def sample_URL_host_def)
  have lo: "URL_host sample_env ''foo://example.com'' = Some ''example.com''"
    by (simp add: sample_env_def sample_URL_host_def)
  have same: "toLowerCase ''EXAMPLE.COM'' = toLowerCase ''example.com''"
    by code_simp
  note inst = host_case_insensitive [OF up lo same, of "Home_init :: (int, unit) Home"]
  have host: "hostFromUrl sample_env ''foo://EXAMPLE.COM'' = ''example.com''"
    using inst by (simp add: lower_sample)
  have upper: "canScan sample_env ((Home_init :: (int, unit) Home)\<lparr>url := ''foo://EXAMPLE.COM''\<rparr>)"
    using inst by (auto simp: lower_sample example_demo)
  have lower: "canScan sample_env ((Home_init :: (int, unit) Home)\<lparr>url := ''foo://example.com''\<rparr>)"
    using inst upper by blast
  show ?thesis
    by (intro conjI up lo same host upper lower)
qed

text \<open>
  C8. A send with a blank draft (every character white space, the empty draft
  included) returns at its guard: the state is unchanged and no request is issued,
  whatever the network would answer; \<open>handleSend\<close> of the chat panel likewise leaves its
  state unchanged and does not call \<open>onSend\<close>. A scan attempted while \<open>canScan\<close> is
  false issues no request and changes the state only by setting the error message.
\<close>

theorem guards_issue_no_request:
  "((\<forall>c\<in>set (draft st). is_ws c) \<longrightarrow>
      sendToAssistantInline env st = (st, Done (\<lambda>s. s)) \<and>
      complete (sendToAssistantInline env st) ss = ([], st)) \<and>
   ((\<forall>c\<in>set (text_input p). is_ws c) \<longrightarrow> handleSend p = (p, None)) \<and>
   (\<not> canScan env st \<longrightarrow>
      complete (onScan env st) ss' =
        ([], st\<lparr>err := Some ''Please attest you own or are authorized to test this domain.''\<rparr>))"
  by (simp add: sendToAssistantInline_def handleSend_def onScan_def complete_def
      trim_Nil_iff [symmetric] split: option.split)

theorem guards_issue_no_request_witness:
  "trim (draft (sample_chat\<lparr>url := ''https://mysite.io'', draft := ''  ''\<rparr>)) = [] \<and>
   complete (sendToAssistantInline sample_env
       (sample_chat\<lparr>url := ''https://mysite.io'', draft := ''  ''\<rparr>))
     [Resolved \<lparr>ok = True, status = 200, json = Inr sample_reply\<rparr>] =
     ([], sample_chat\<lparr>url := ''https://mysite.io'', draft := ''  ''\<rparr>) \<and>
   handleSend \<lparr>ChatPanel.messages = [], text_input = ''  ''\<rparr> =
     (\<lparr>ChatPanel.messages = [], text_input = ''  ''\<rparr>, None) \<and>
   \<not> canScan sample_env (sample_chat\<lparr>url := ''https://mysite.io'', draft := ''  ''\<rparr>) \<and>
   complete (onScan sample_env (sample_chat\<lparr>url := ''https://mysite.io'', draft := ''  ''\<rparr>))
     [Resolved \<lparr>ok = True, status = 200, json = Inr sample_scan\<rparr>] =
     ([], sample_chat\<lparr>url := ''https://mysite.io'', draft := ''  '',
            err := Some ''Please attest you own or are authorized to test this domain.''\<rparr>)"
proof -
  have blocked:
    "\<not> canScan sample_env (sample_chat\<lparr>url := ''https://mysite.io'', draft := ''  ''\<rparr>)"
    by (simp add: canScan_def host_sample_mysite mysite_not_demo sample_chat_def Home_init_def)
  show ?thesis
    using guards_issue_no_request
        [where st = "sample_chat\<lparr>url := ''https://mysite.io'', draft := ''  ''\<rparr>"
        and env = sample_env and p = "\<lparr>ChatPanel.messages = [], text_input = ''  ''\<rparr>"
        and ss = "[Resolved \<lparr>ok = True, status = 200, json = Inr sample_reply\<rparr>]"
        and ss' = "[Resolved \<lparr>ok = True, status = 200, json = Inr sample_scan\<rparr>]"]
      blocked
    by (simp add: is_ws_space complete_def trim_Nil_iff)
qed

section \<open>The scan flow\<close>

text \<open>
  C5. A scan that passes the gate and is answered with a successful response carrying
  \<open>result\<close>: the update then made stores \<open>result\<close> itself as the scan of the state,
  whatever that state \<open>st'\<close> is, and the page rendered from it shows \<open>result\<close>'s score
  and URL and one card per finding of \<open>result\<close>, in order; so as many cards as
  findings, none for an empty list.
\<close>

theorem scan_success_mirrors_response:
  assumes "canScan env st" and "ok res" and "json res = Inr result"
  shows
    "(case run (snd (onScan env st)) [Resolved res] of
        (qs, Some k) \<Rightarrow>
          scan (k st') = Some result \<and>
          (case scan_section (render env stringify (k st')) of
             Some sec \<Rightarrow>
               score_shown sec = score result \<and> url_shown sec = Scan.url result \<and>
               cards sec = map (FindingCard stringify) (findings result) \<and>
               length (cards sec) = length (findings result)
           | None \<Rightarrow> False)
      | (qs, None) \<Rightarrow> False)"
  using assms
  by (simp add: onScan_def render_def run_and_then run_apiPost after_fetch_ok)

theorem scan_success_mirrors_response_witness:
  "canScan sample_env (Home_init :: (int, unit) Home) \<and>
   scan (snd (complete (onScan sample_env Home_init)
      [Resolved \<lparr>ok = True, status = 200, json = Inr sample_scan\<rparr>])) = Some sample_scan \<and>
   scan_section (render sample_env (\<lambda>e. ''{}'')
      (snd (complete (onScan sample_env Home_init)
         [Resolved \<lparr>ok = True, status = 200, json = Inr sample_scan\<rparr>]))) =
     Some \<lparr>score_shown = 72, url_shown = ''https://example.com'', thread_shown = None,
           cards = []\<rparr>"
proof -
  have allowed: "canScan sample_env (Home_init :: (int, unit) Home)"
    by (simp add: canScan_def Home_init_def host_sample_example example_demo)
  have "case run (snd (onScan sample_env (Home_init :: (int, unit) Home)))
          [Resolved \<lparr>ok = True, status = 200, json = Inr sample_scan\<rparr>] of
          (qs, Some k) \<Rightarrow> scan (k (fst (onScan sample_env Home_init))) = Some sample_scan
        | (qs, None) \<Rightarrow> False"
    using scan_success_mirrors_response [OF allowed,
        where res = "\<lparr>ok = True, status = 200, json = Inr sample_scan\<rparr>"
        and result = sample_scan and st' = "fst (onScan sample_env Home_init)"
        and stringify = "\<lambda>e. ''{}''"]
    by (simp split: prod.splits option.splits)
  then have stored: "scan (snd (complete (onScan sample_env (Home_init :: (int, unit) Home))
      [Resolved \<lparr>ok = True, status = 200, json = Inr sample_scan\<rparr>])) = Some sample_scan"
    by (simp add: complete_def split: prod.splits option.splits)
  have shown: "scan_section (render sample_env (\<lambda>e. ''{}'')
      (snd (complete (onScan sample_env (Home_init :: (int, unit) Home))
         [Resolved \<lparr>ok = True, status = 200, json = Inr sample_scan\<rparr>]))) =
     Some \<lparr>score_shown = 72, url_shown = ''https://example.com'', thread_shown = None,
           cards = []\<rparr>"
    using allowed
    by (simp add: complete_def onScan_def run_and_then run_apiPost after_fetch_ok
        render_def Home_init_def sample_scan_def)
  show ?thesis
    by (intro conjI allowed stored shown)
qed

text \<open>
  C6. Not every successful scan ends without a chat session: no request is cancelled,
  so the answer to a message or session request that was pending when the scan began
  is still handled, and it sets the transcript (and, for a session request, the session
  identifier) again before the scan's own answer arrives. What holds: a scan that
  passes the gate clears the chat session as it issues its request (session identifier
  and transcript are both absent in the state it leaves); the update it makes on a
  successful response carrying \<open>result\<close> sets the scan to \<open>result\<close> and resets the
  loading flag, nothing else; so the scan, when no other handler's response is handled
  between its request and its response, ends in the state that holds \<open>result\<close>, no
  session identifier and no transcript, having issued the one \<open>POST /scan\<close> request.
\<close>

theorem scan_success_clears_chat_session:
  assumes "canScan env st" and "ok res" and "json res = Inr result"
  shows
    "sessionId (fst (onScan env st)) = None \<and> messages (fst (onScan env st)) = None \<and>
     (case run (snd (onScan env st)) [Resolved res] of
        (qs, Some k) \<Rightarrow> k st' = st'\<lparr>scan := Some result, loading := False\<rparr>
      | (qs, None) \<Rightarrow> False) \<and>
     resume (onScan env st) (Resolved res) st' = st'\<lparr>scan := Some result, loading := False\<rparr> \<and>
     complete (onScan env st) [Resolved res] =
       ([\<lparr>resource = API_BASE (NEXT_PUBLIC_API_BASE_URL env) @ ''/scan'', http_method = POST,
          headers = [(''content-type'', ''application/json'')],
          body = Some (ScanBody (url st)), cache = ''no-store''\<rparr>],
        st\<lparr>loading := False, err := None, scan := Some result, sessionId := None,
           messages := None, draft := []\<rparr>)"
  using assms
  by (simp add: onScan_def complete_def resume_def run_and_then run_apiPost after_fetch_ok)

theorem scan_success_clears_chat_session_witness:
  "canScan sample_env (sample_chat\<lparr>attest := True\<rparr>) \<and>
   sessionId sample_chat = Some ''abc'' \<and>
   snd (complete (onScan sample_env (sample_chat\<lparr>attest := True\<rparr>))
      [Resolved \<lparr>ok = True, status = 200, json = Inr sample_scan\<rparr>]) =
     Home_init\<lparr>scan := Some sample_scan, attest := True\<rparr>"
proof -
  have allowed: "canScan sample_env (sample_chat\<lparr>attest := True\<rparr>)"
    by (simp add: canScan_def)
  show ?thesis
    using scan_success_clears_chat_session [OF allowed,
        where res = "\<lparr>ok = True, status = 200, json = Inr sample_scan\<rparr>"
        and result = sample_scan] allowed
    by (simp add: sample_chat_def Home_init_def)
qed

text \<open>
  The two orders of events above: each scan succeeds and the state holds its result, yet
  the transcript of the earlier session is present afterwards, in the second order
  together with a session identifier.
\<close>

theorem scan_success_clears_chat_session_counterexample:
  "sessionId sample_chat = Some ''abc'' \<and>
   scan sample_late_reply = Some sample_scan \<and>
   sessionId sample_late_reply = None \<and>
   messages sample_late_reply = Some (MessageResp.messages sample_reply) \<and>
   messages sample_late_reply \<noteq> None \<and>
   scan sample_late_boot = Some sample_scan \<and>
   sessionId sample_late_boot = Some ''abc-2'' \<and>
   sessionId sample_late_boot \<noteq> None \<and>
   messages sample_late_boot = Some [\<lparr>role = system, content = ''context''\<rparr>]"
proof -
  have reply: "scan sample_late_reply = Some sample_scan \<and>
      sessionId sample_late_reply = None \<and>
      messages sample_late_reply = Some (MessageResp.messages sample_reply)"
    by (simp add: sample_late_reply_def resume_def sendToAssistantInline_def onScan_def
        run_and_then run_apiPost after_fetch_ok sample_chat_def Home_init_def trim_sample
        Let_def canScan_def host_sample_example example_demo)
  have boot: "scan sample_late_boot = Some sample_scan \<and>
      sessionId sample_late_boot = Some ''abc-2'' \<and>
      messages sample_late_boot = Some [\<lparr>role = system, content = ''context''\<rparr>]"
    by (simp add: sample_late_boot_def resume_def startAssistant_def onScan_def
        run_and_then run_apiPost after_fetch_ok sample_chat_def Home_init_def
        sample_boot_def canScan_def host_sample_example example_demo)
  have open_session: "sessionId sample_chat = Some ''abc''"
    by (simp add: sample_chat_def)
  show ?thesis
    using reply boot open_session by simp
qed

section \<open>The HTTP helper's contract\<close>

text \<open>
  C3. \<open>apiGet\<close> and \<open>apiPost\<close>, run against a network whose first answer is the
  response \<open>res\<close>: when \<open>res\<close> reports success and its body decodes to \<open>v\<close>, the
  result is \<open>v\<close>; when \<open>res\<close> does not report success, the call fails with an error
  whose message is the verb, the path, \<open>failed:\<close> and the status in decimal. Either
  way exactly one request was issued, with caching disabled: whatever further answers
  the network holds, none is asked for.
\<close>

theorem api_helpers_outcome:
  fixes res :: "'r Response"
  shows
  "(ok res \<and> json res = Inr v \<longrightarrow>
      snd (run (apiGet b path :: ('b, 'r, thrown + 'r) io) (Resolved res # ss)) = Some (Inr v) \<and>
      snd (run (apiPost b path payload :: ('b, 'r, thrown + 'r) io) (Resolved res # ss)) =
        Some (Inr v)) \<and>
   (\<not> ok res \<longrightarrow>
      snd (run (apiGet b path :: ('b, 'r, thrown + 'r) io) (Resolved res # ss)) =
        Some (Inl (new_Error (''GET '' @ path @ '' failed: '' @ show_nat (Response.status res)))) \<and>
      snd (run (apiPost b path payload :: ('b, 'r, thrown + 'r) io) (Resolved res # ss)) =
        Some (Inl (new_Error (''POST '' @ path @ '' failed: '' @ show_nat (Response.status res))))) \<and>
   fst (run (apiGet b path :: ('b, 'r, thrown + 'r) io) (Resolved res # ss)) =
     [\<lparr>resource = API_BASE b @ path, http_method = GET, headers = [],
       body = None, cache = ''no-store''\<rparr>] \<and>
   fst (run (apiPost b path payload :: ('b, 'r, thrown + 'r) io) (Resolved res # ss)) =
     [\<lparr>resource = API_BASE b @ path, http_method = POST,
       headers = [(''content-type'', ''application/json'')],
       body = Some payload, cache = ''no-store''\<rparr>]"
  by (simp add: run_apiGet run_apiPost after_fetch_def)

theorem api_helpers_outcome_witness:
  "snd (run (apiGet None ''/health'' :: (unit, nat, thrown + nat) io)
          [Resolved \<lparr>ok = True, status = 200, json = Inr 7\<rparr>]) = Some (Inr 7) \<and>
   snd (run (apiPost None ''/scan'' () :: (unit, nat, thrown + nat) io)
          [Resolved \<lparr>ok = False, status = 500, json = Inr 7\<rparr>]) =
     Some (Inl (new_Error ''POST /scan failed: 500'')) \<and>
   fst (run (apiPost None ''/scan'' () :: (unit, nat, thrown + nat) io)
          [Resolved \<lparr>ok = False, status = 500, json = Inr 7\<rparr>]) =
     [\<lparr>resource = ''http://localhost:8000/scan'', http_method = POST,
       headers = [(''content-type'', ''application/json'')],
       body = Some (), cache = ''no-store''\<rparr>]"
  using api_helpers_outcome [where res = "\<lparr>ok = True, status = 200, json = Inr (7::nat)\<rparr>"
      and v = 7 and b = None and path = "''/health''" and payload = "()" and ss = "[]"]
    api_helpers_outcome [where res = "\<lparr>ok = False, status = 500, json = Inr (7::nat)\<rparr>"
      and v = 7 and b = None and path = "''/scan''" and payload = "()" and ss = "[]"]
  by (simp add: show_nat_500 API_BASE_def)

section \<open>The status badge\<close>

text \<open>
  C9. \<open>PASS\<close>, \<open>WARN\<close>, \<open>FAIL\<close> and \<open>INFO\<close> are all the values of \<open>Status\<close>; the
  style class of each is not empty, the four classes are pairwise distinct, and the
  badge of a status carries its class after the fixed prefix, with no other case.
\<close>

theorem StatusBadge_total_distinct:
  "classes s \<noteq> [] \<and> distinct (map classes [PASS, WARN, FAIL, INFO]) \<and>
   s \<in> set [PASS, WARN, FAIL, INFO] \<and>
   StatusBadge s = \<lparr>className = ''px-2 py-1 text-xs rounded '' @ classes s, label = s\<rparr>"
  by (cases s) (simp_all add: classes_def StatusBadge_def)

theorem StatusBadge_total_distinct_witness:
  "classes WARN = ''bg-yellow-100 text-yellow-800'' \<and>
   className (StatusBadge WARN) = ''px-2 py-1 text-xs rounded bg-yellow-100 text-yellow-800''"
  using StatusBadge_total_distinct [of WARN] by (simp add: classes_def)

end
